theory Spec2Isabelle
  imports Main "HOL-Library.AList"
begin

section \<open>Errors and warnings\<close>

text \<open>
  Every exception the module can raise is a value. \<open>ValueError\<close> and \<open>AttributeError\<close>
  carry the message the source formats; \<open>IndexError\<close> is indexing an empty shape tuple;
  \<open>AxisError\<close> is numpy refusing an axis a zero-dimensional array does not have;
  \<open>Raised\<close> is whatever an external collaborator (an inference object, a transformer,
  a subclass's model) raises.
\<close>

datatype error =
    ValueError string
  | AttributeError string
  | IndexError
  | AxisError
  | Raised string

definition bind_err :: "error + 'a \<Rightarrow> ('a \<Rightarrow> error + 'b) \<Rightarrow> error + 'b" where
  "bind_err r f = (case r of Inl e \<Rightarrow> Inl e | Inr v \<Rightarrow> f v)"

section \<open>Arrays\<close>

text \<open>
  A numpy array is its shape tuple and its buffer in row-major order. Entries are taken
  from a commutative ring where arithmetic is needed; rounding is not modelled.
\<close>

record 'a ndarray =
  shp :: "nat list"
  dat :: "'a list"


text \<open>All index tuples of a shape, in row-major order.\<close>

primrec all_indices :: "nat list \<Rightarrow> nat list list" where
  "all_indices [] = [[]]"
| "all_indices (d # ds) = concat (map (\<lambda>i. map ((#) i) (all_indices ds)) [0..<d])"

text \<open>Position of an index tuple in the row-major buffer.\<close>

fun flat_index :: "nat list \<Rightarrow> nat list \<Rightarrow> nat" where
  "flat_index (d # ds) (i # is) = i * prod_list ds + flat_index ds is"
| "flat_index _ _ = 0"

definition get :: "'a ndarray \<Rightarrow> nat list \<Rightarrow> 'a" where
  "get a idx = dat a ! flat_index (shp a) idx"

definition tabulate :: "nat list \<Rightarrow> (nat list \<Rightarrow> 'a) \<Rightarrow> 'a ndarray" where
  "tabulate s f = \<lparr>shp = s, dat = map f (all_indices s)\<rparr>"

text \<open>
  Modelled from the spec: \<open>shape\<close> and \<open>ndim\<close> come from \<open>econml.utilities\<close>, which is
  not among the sources; the spec reads them as the shape tuple ("row count") and the
  number of dimensions ("zero-dimensional").
\<close>

definition shape :: "'a ndarray \<Rightarrow> nat list" where
  "shape a = shp a"

definition ndim :: "'a ndarray \<Rightarrow> nat" where
  "ndim a = length (shp a)"

text \<open>\<open>t[0]\<close> on a tuple: an empty tuple has no first component.\<close>

definition tuple0 :: "nat list \<Rightarrow> error + nat" where
  "tuple0 t = (case t of [] \<Rightarrow> Inl IndexError | n # _ \<Rightarrow> Inr n)"

text \<open>\<open>np.full(shape, v)\<close>: the value \<open>v\<close> at every position.\<close>

definition np_full :: "nat list \<Rightarrow> 'a \<Rightarrow> 'a ndarray" where
  "np_full s v = \<lparr>shp = s, dat = replicate (prod_list s) v\<rparr>"

text \<open>
  \<open>np.repeat(a, n, axis=0)\<close>: every row \<open>n\<close> times in a row, so row \<open>j\<close> of the result is
  row \<open>j div n\<close> of \<open>a\<close>. A zero-dimensional array has no axis 0.
\<close>

definition np_repeat :: "'a ndarray \<Rightarrow> nat \<Rightarrow> error + 'a ndarray" where
  "np_repeat a n =
     (case shp a of
        [] \<Rightarrow> Inl AxisError
      | k # rest \<Rightarrow>
          Inr (tabulate (k * n # rest) (\<lambda>idx. get a ((hd idx div n) # tl idx))))"

text \<open>
  Broadcasting of two shapes, aligned at the right: paired extents agree or one of them
  is 1; anything else is numpy's "operands could not be broadcast together".
\<close>

fun broadcast_rev :: "nat list \<Rightarrow> nat list \<Rightarrow> nat list option" where
  "broadcast_rev [] ys = Some ys"
| "broadcast_rev xs [] = Some xs"
| "broadcast_rev (x # xs) (y # ys) =
     (if x = y \<or> y = 1 then map_option ((#) x) (broadcast_rev xs ys)
      else if x = 1 then map_option ((#) y) (broadcast_rev xs ys)
      else None)"

definition broadcast_shapes :: "nat list \<Rightarrow> nat list \<Rightarrow> nat list option" where
  "broadcast_shapes s1 s2 = map_option rev (broadcast_rev (rev s1) (rev s2))"

text \<open>
  The index an operand of shape \<open>s\<close> is read at for the result index \<open>idx\<close>: leading axes
  the operand lacks are dropped, and an axis of extent 1 is read at 0.
\<close>

definition bidx :: "nat list \<Rightarrow> nat list \<Rightarrow> nat list" where
  "bidx s idx = map2 (\<lambda>d i. if d = 1 then 0 else i) s (drop (length idx - length s) idx)"

definition np_sub :: "('a::minus) ndarray \<Rightarrow> 'a ndarray \<Rightarrow> error + 'a ndarray" where
  "np_sub a b =
     (case broadcast_shapes (shp a) (shp b) of
        None \<Rightarrow> Inl (ValueError ''operands could not be broadcast together'')
      | Some s \<Rightarrow>
          Inr (tabulate s (\<lambda>idx. get a (bidx (shp a) idx) - get b (bidx (shp b) idx))))"

text \<open>
  \<open>np.einsum(subscripts, a, b)\<close> for the explicit two-operand form \<open>A,B->C\<close> with letters as
  labels, which is the only form \<open>effect\<close> passes. Each operand needs as many labels as it
  has axes. A label's extent is the extent of the axes it names; an axis of extent 1 is
  broadcast against the others, two different extents other than 1 are an error. Labels
  missing from the output are summed over, in the order they first appear.
\<close>

definition split_on :: "char \<Rightarrow> string \<Rightarrow> string \<times> string" where
  "split_on c s = (takeWhile (\<lambda>x. x \<noteq> c) s, drop 1 (dropWhile (\<lambda>x. x \<noteq> c) s))"

definition is_label :: "char \<Rightarrow> bool" where
  "is_label c = (c \<in> set ''abcdefghijklmnopqrstuvwxyzABCDEFGHIJKLMNOPQRSTUVWXYZ'')"

definition parse_subscripts :: "string \<Rightarrow> (string \<times> string \<times> string) option" where
  "parse_subscripts s =
     (let (ins, rest) = split_on (CHR ''-'') s;
          (sa, sb) = split_on (CHR '','') ins;
          out = drop 1 rest
      in if s = sa @ '','' @ sb @ ''->'' @ out \<and> list_all is_label (sa @ sb @ out)
         then Some (sa, sb, out) else None)"

definition label_dim :: "(char \<times> nat) list \<Rightarrow> char \<Rightarrow> nat" where
  "label_dim env l =
     (case filter (\<lambda>d. d \<noteq> 1) (map snd (filter (\<lambda>p. fst p = l) env)) of
        [] \<Rightarrow> 1
      | d # _ \<Rightarrow> d)"

definition operand_index :: "(char \<times> nat) list \<Rightarrow> string \<Rightarrow> nat list \<Rightarrow> nat list" where
  "operand_index asg sub s =
     map2 (\<lambda>l d. if d = 1 then 0 else (case map_of asg l of Some i \<Rightarrow> i | None \<Rightarrow> 0)) sub s"

definition np_einsum ::
  "string \<Rightarrow> ('a::comm_ring_1) ndarray \<Rightarrow> 'a ndarray \<Rightarrow> error + 'a ndarray" where
  "np_einsum s a b =
     (case parse_subscripts s of
        None \<Rightarrow> Inl (Raised ''einsum: subscripts outside the modelled form'')
      | Some (sa, sb, out) \<Rightarrow>
          if length sa \<noteq> ndim a \<or> length sb \<noteq> ndim b
          then Inl (ValueError ''einsum: subscripts do not match the operand's dimensions'')
          else
            let env = zip sa (shp a) @ zip sb (shp b) in
            if \<not> list_all (\<lambda>(l, d). d = 1 \<or> d = label_dim env l) env
            then Inl (ValueError ''einsum: operands could not be broadcast together'')
            else if \<not> distinct out \<or> \<not> list_all (\<lambda>l. l \<in> set (sa @ sb)) out
            then Inl (ValueError ''einsum: bad output subscripts'')
            else
              let summed = filter (\<lambda>l. l \<notin> set out) (remdups (sa @ sb)) in
              Inr (tabulate (map (label_dim env) out)
                    (\<lambda>oi. sum_list (map
                        (\<lambda>si. let asg = zip (out @ summed) (oi @ si)
                              in get a (operand_index asg sa (shp a)) *
                                 get b (operand_index asg sb (shp b)))
                        (all_indices (map (label_dim env) summed))))))"

text \<open>Unary minus on an array, entry by entry.\<close>

definition negate :: "('a::uminus) ndarray \<Rightarrow> 'a ndarray" where
  "negate a = a\<lparr>dat := map uminus (dat a)\<rparr>"

section \<open>LinearCateEstimator\<close>

text \<open>
  The methods \<open>effect\<close> and \<open>marginal_effect\<close> reach through \<open>self\<close>: the abstract
  \<open>const_marginal_effect\<close> of the concrete estimator, and \<open>_expand_treatments\<close>, which
  a mixin may override. Warnings emitted on the way are returned in order, next to the
  outcome.
\<close>

type_synonym 'r outcome = "string list \<times> (error + 'r)"

record 'a cate_methods =
  expand_treatments ::
    "'a ndarray option \<Rightarrow> 'a ndarray list \<Rightarrow> ('a ndarray option \<times> 'a ndarray list) outcome"
  const_marginal_effect :: "'a ndarray option \<Rightarrow> error + 'a ndarray"

text \<open>\<open>BaseCateEstimator._expand_treatments\<close>: \<open>return (X,) + Ts\<close>.\<close>

definition base_expand_treatments ::
  "'a ndarray option \<Rightarrow> 'a ndarray list \<Rightarrow> ('a ndarray option \<times> 'a ndarray list) outcome" where
  "base_expand_treatments X Ts = ([], Inr (X, Ts))"

text \<open>The subscripts \<open>effect\<close> builds: \<open>str.replace(c, '')\<close> deletes every \<open>c\<close>.\<close>

definition str_remove :: "char \<Rightarrow> string \<Rightarrow> string" where
  "str_remove c s = filter (\<lambda>x. x \<noteq> c) s"

definition einsum_str :: "'a ndarray \<Rightarrow> 'a ndarray \<Rightarrow> string" where
  "einsum_str eff dT =
     (let s = ''myt,mt->my'';
          s = (if ndim dT = 1 then str_remove (CHR ''t'') s else s);
          s = (if ndim eff = ndim dT then str_remove (CHR ''y'') s else s)
      in s)"

text \<open>\<open>LinearCateEstimator.effect(X, T0=T0, T1=T1)\<close>.\<close>

definition effect ::
  "('a::comm_ring_1) cate_methods \<Rightarrow> 'a ndarray option \<Rightarrow> 'a ndarray \<Rightarrow> 'a ndarray
     \<Rightarrow> 'a ndarray outcome" where
  "effect self X T0 T1 =
     (case expand_treatments self X [T0, T1] of
        (ws, Inl e) \<Rightarrow> (ws, Inl e)
      | (ws, Inr (X, Ts)) \<Rightarrow>
          (ws,
           case Ts of
             [T0, T1] \<Rightarrow>
               bind_err (const_marginal_effect self X) (\<lambda>eff.
               bind_err (if X = None
                         then bind_err (tuple0 (shape T0)) (\<lambda>n. np_repeat eff n)
                         else Inr eff) (\<lambda>eff.
               bind_err (tuple0 (shape eff)) (\<lambda>m.
               bind_err (np_sub T1 T0) (\<lambda>dT.
               np_einsum (einsum_str eff dT) eff dT))))
           | _ \<Rightarrow> Inl (ValueError ''wrong number of values to unpack'')))"


text \<open>
  The contraction as the specification words it:
  \<open>effect[m,y] = \<Sum>t. eff[m,y,t] * dT[m,t]\<close>, where \<open>dy = None\<close> says that \<open>Y\<close> is a
  vector (no \<open>y\<close> axis) and \<open>dt = None\<close> that \<open>T\<close> is a vector (no \<open>t\<close> axis).
\<close>

definition opt_axis :: "nat option \<Rightarrow> nat list" where
  "opt_axis d = (case d of None \<Rightarrow> [] | Some n \<Rightarrow> [n])"

definition axis_indices :: "nat option \<Rightarrow> nat list list" where
  "axis_indices d = (case d of None \<Rightarrow> [[]] | Some n \<Rightarrow> map (\<lambda>i. [i]) [0..<n])"

definition spec_contraction ::
  "nat \<Rightarrow> nat option \<Rightarrow> nat option \<Rightarrow> ('a::comm_ring_1) ndarray \<Rightarrow> 'a ndarray \<Rightarrow> 'a ndarray" where
  "spec_contraction m dy dt eff dT =
     \<lparr>shp = m # opt_axis dy,
      dat = concat (map (\<lambda>i. map (\<lambda>y.
              sum_list (map (\<lambda>t. get eff (i # y @ t) * get dT (i # t)) (axis_indices dt)))
              (axis_indices dy)) [0..<m])\<rparr>"

section \<open>Estimator objects\<close>

type_synonym addr = nat

text \<open>
  The attribute \<open>_inference\<close> of an estimator: never assigned (no \<open>fit\<close> has completed),
  assigned \<open>None\<close>, or assigned a reference to an inference object.
\<close>

datatype inference_slot = Unassigned | PyNone | Obj addr

text \<open>
  An estimator object. \<open>_d_y\<close>, \<open>_d_t\<close> and \<open>_d_t_in\<close> are \<open>None\<close> while the attribute
  has not been assigned; reading one then is Python's AttributeError. \<open>transformer\<close> is the
  class attribute of the mixin (\<open>None\<close> unless a subclass sets one); \<open>fitted\<close> is whatever
  else the concrete subclass keeps.
\<close>

record ('a, 'm) estimator =
  d_y :: "nat list option"
  d_t :: "nat list option"
  d_t_in :: "nat list option"
  stored_inference :: inference_slot
  transformer :: "('a ndarray \<Rightarrow> error + 'a ndarray) option"
  fitted :: 'm

text \<open>
  What method resolution needs to know of an estimator's class: its name (Python puts it
  into the message for a missing attribute) and which classes of this module are among
  its bases.
\<close>

record klass =
  class_name :: string
  treatment_expansion :: bool
  statsmodels_mixin :: bool

text \<open>
  A string between single quotes, and the message of Python's AttributeError for an
  attribute that was never assigned.
\<close>

definition py_quote :: "string \<Rightarrow> string" where
  "py_quote s = CHR 0x27 # s @ [CHR 0x27]"

definition no_attribute :: "klass \<Rightarrow> string \<Rightarrow> error" where
  "no_attribute k name =
     AttributeError (py_quote (class_name k) @ '' object has no attribute '' @ py_quote name)"

section \<open>TreatmentExpansionMixin: scalar treatments\<close>

definition scalar_warning :: string where
  "scalar_warning =
     ''A scalar was specified but there are multiple treatments; '' @
     ''the same value will be used for each treatment.  Consider specifying'' @
     ''all treatments, or using the const_marginal_effect method.''"

text \<open>\<open>if self.transformer: T = self.transformer.transform(T)\<close>.\<close>

definition apply_transformer ::
  "('a, 'm) estimator \<Rightarrow> 'a ndarray \<Rightarrow> error + 'a ndarray" where
  "apply_transformer self T =
     (case transformer self of None \<Rightarrow> Inr T | Some transform \<Rightarrow> transform T)"

text \<open>
  One round of the loop in \<open>TreatmentExpansionMixin._expand_treatments\<close>. \<open>and\<close> is
  short-circuit: \<open>self._d_t_in\<close> is read only for a zero-dimensional \<open>T\<close>. A
  zero-dimensional \<open>T\<close> has one entry, \<open>T[()]\<close>.
\<close>

definition expand_one ::
  "klass \<Rightarrow> ('a, 'm) estimator \<Rightarrow> nat \<Rightarrow> 'a ndarray \<Rightarrow> 'a ndarray outcome" where
  "expand_one k self n_rows T =
     (if ndim T = 0 then
        (case d_t_in self of
           None \<Rightarrow> ([], Inl (no_attribute k ''_d_t_in''))
         | Some dti \<Rightarrow>
             ((if dti \<noteq> [] \<and> hd dti > 1 then [scalar_warning] else []),
              apply_transformer self (np_full (n_rows # dti) (get T []))))
      else ([], apply_transformer self T))"

text \<open>The loop: the first exception ends it, the warnings given so far stay.\<close>

fun expand_loop ::
  "klass \<Rightarrow> ('a, 'm) estimator \<Rightarrow> nat \<Rightarrow> 'a ndarray list \<Rightarrow> 'a ndarray list outcome" where
  "expand_loop k self n_rows [] = ([], Inr [])"
| "expand_loop k self n_rows (T # Ts) =
     (case expand_one k self n_rows T of
        (ws, Inl e) \<Rightarrow> (ws, Inl e)
      | (ws, Inr T') \<Rightarrow>
          (case expand_loop k self n_rows Ts of
             (ws', Inl e) \<Rightarrow> (ws @ ws', Inl e)
           | (ws', Inr outTs) \<Rightarrow> (ws @ ws', Inr (T' # outTs))))"

definition mixin_expand_treatments ::
  "klass \<Rightarrow> ('a, 'm) estimator \<Rightarrow> 'a ndarray option \<Rightarrow> 'a ndarray list
     \<Rightarrow> ('a ndarray option \<times> 'a ndarray list) outcome" where
  "mixin_expand_treatments k self X Ts =
     (case (case X of None \<Rightarrow> Inr 1 | Some x \<Rightarrow> tuple0 (shape x)) of
        Inl e \<Rightarrow> ([], Inl e)
      | Inr n_rows \<Rightarrow>
          (case expand_loop k self n_rows Ts of
             (ws, Inl e) \<Rightarrow> (ws, Inl e)
           | (ws, Inr outTs) \<Rightarrow> (ws, Inr (X, outTs))))"

text \<open>What the specification says a scalar becomes: the shape and the same value everywhere.\<close>

definition spec_broadcast :: "nat \<Rightarrow> nat list \<Rightarrow> 'a ndarray \<Rightarrow> 'a ndarray" where
  "spec_broadcast n_rows dti T =
     (if ndim T = 0
      then \<lparr>shp = n_rows # dti, dat = replicate (prod_list (n_rows # dti)) (get T [])\<rparr>
      else T)"

definition spec_warns :: "nat list \<Rightarrow> 'a ndarray \<Rightarrow> bool" where
  "spec_warns dti T = (ndim T = 0 \<and> dti \<noteq> [] \<and> hd dti > 1)"

section \<open>BaseCateEstimator: the fit lifecycle\<close>

text \<open>
  The inference classes (\<open>econml.inference\<close>) and the concrete estimators whose \<open>fit\<close>
  is wrapped are not among the sources: they are parameters here. The specification gives
  the contract of an inference object: \<open>prefit(estimator, Y, T, *args, **kwargs)\<close>,
  \<open>fit(estimator, Y, T, *args, **kwargs)\<close> and interval methods named like the
  estimator's. A hook is handed the inference object it is called on and the estimator
  being fitted, and may change both; when it raises, what it changed so far stays. An
  interval method reads the inference object it is called on.
\<close>

datatype inference_class = BootstrapInference | StatsModelsInference

type_synonym 'a call_args = "'a ndarray option list \<times> (string \<times> 'a ndarray option) list"

record ('a, 'i, 'm, 'g) hooks =
  new_inference :: "inference_class \<Rightarrow> 'i"
  inference_prefit ::
    "'i \<Rightarrow> ('a, 'm) estimator \<Rightarrow> 'a ndarray \<Rightarrow> 'a ndarray \<Rightarrow> 'g
       \<Rightarrow> error option \<times> 'i \<times> ('a, 'm) estimator"
  inference_fit ::
    "'i \<Rightarrow> ('a, 'm) estimator \<Rightarrow> 'a ndarray \<Rightarrow> 'a ndarray \<Rightarrow> 'g
       \<Rightarrow> error option \<times> 'i \<times> ('a, 'm) estimator"
  inference_call :: "'i \<Rightarrow> string \<Rightarrow> 'a call_args \<Rightarrow> error + 'a ndarray list"

text \<open>The wrapped method \<open>m(self, Y, T, *args, **kwargs)\<close> of a concrete estimator.\<close>

type_synonym ('a, 'm, 'g) fit_body =
  "('a, 'm) estimator \<Rightarrow> 'a ndarray \<Rightarrow> 'a ndarray \<Rightarrow> 'g \<Rightarrow> error option \<times> ('a, 'm) estimator"

text \<open>
  What \<open>fit\<close> does, in the order it does it: an inference object is constructed from a
  registry entry, an inference object is deep-copied, the shapes are recorded, the hooks
  and the wrapped body are called, \<open>_inference\<close> is assigned.
\<close>

datatype event =
    Constructed inference_class addr
  | Copied addr addr
  | RecordShapes nat
  | InferencePrefit addr nat
  | ModelFit nat
  | InferenceFit addr nat
  | StoreInference nat inference_slot

text \<open>
  Estimators and inference objects are objects with identity: a reference is a position
  in the store.
\<close>

record ('a, 'i, 'm) world =
  estimators :: "('a, 'm) estimator list"
  heap :: "'i list"
  log :: "event list"

text \<open>The \<open>inference\<close> argument of \<open>fit\<close>: \<open>None\<close>, a string, or an inference instance.\<close>

datatype inference_arg = NoInference | Name string | Instance addr

text \<open>\<open>BaseCateEstimator._get_inference_options\<close> and its override in the statsmodels mixin.\<close>

definition base_get_inference_options :: "(string \<times> inference_class) list" where
  "base_get_inference_options = [(''bootstrap'', BootstrapInference)]"

definition statsmodels_get_inference_options :: "(string \<times> inference_class) list" where
  "statsmodels_get_inference_options =
     (let options = base_get_inference_options
      in AList.update ''statsmodels'' StatsModelsInference options)"

definition get_inference_options :: "klass \<Rightarrow> (string \<times> inference_class) list" where
  "get_inference_options k =
     (if statsmodels_mixin k then statsmodels_get_inference_options
      else base_get_inference_options)"

text \<open>
  \<open>'%s' % [*options]\<close>: the keys as Python prints a list of strings. The registry's keys
  have no quote or escape in them, so \<open>repr\<close> puts them between single quotes.
\<close>

fun join :: "string \<Rightarrow> string list \<Rightarrow> string" where
  "join sep [] = []"
| "join sep [x] = x"
| "join sep (x # y # ys) = x @ sep @ join sep (y # ys)"

definition list_repr :: "string list \<Rightarrow> string" where
  "list_repr xs = ''['' @ join '', '' (map py_quote xs) @ '']''"

definition not_recognized :: "string \<Rightarrow> string list \<Rightarrow> error" where
  "not_recognized inference keys =
     ValueError (''Inference option '' @ py_quote inference @
                 '' not recognized; valid values are '' @ list_repr keys)"

definition construct ::
  "('a, 'i, 'm, 'g) hooks \<Rightarrow> inference_class \<Rightarrow> ('a, 'i, 'm) world \<Rightarrow> addr \<times> ('a, 'i, 'm) world" where
  "construct h c w =
     (length (heap w),
      w\<lparr>heap := heap w @ [new_inference h c],
        log := log w @ [Constructed c (length (heap w))]\<rparr>)"

text \<open>\<open>deepcopy\<close>: \<open>None\<close> stays \<open>None\<close>; an object is copied into a fresh one.\<close>

definition deepcopy ::
  "addr option \<Rightarrow> ('a, 'i, 'm) world \<Rightarrow> addr option \<times> ('a, 'i, 'm) world" where
  "deepcopy r w =
     (case r of
        None \<Rightarrow> (None, w)
      | Some a \<Rightarrow>
          (Some (length (heap w)),
           w\<lparr>heap := heap w @ [heap w ! a],
             log := log w @ [Copied a (length (heap w))]\<rparr>))"

text \<open>\<open>BaseCateEstimator._get_inference\<close>.\<close>

definition get_inference ::
  "('a, 'i, 'm, 'g) hooks \<Rightarrow> klass \<Rightarrow> inference_arg \<Rightarrow> ('a, 'i, 'm) world
     \<Rightarrow> (error + addr option) \<times> ('a, 'i, 'm) world" where
  "get_inference h k inference w =
     (let options = get_inference_options k in
      case inference of
        Name s \<Rightarrow>
          (case map_of options s of
             Some c \<Rightarrow>
               (let (a, w1) = construct h c w; (r, w2) = deepcopy (Some a) w1
                in (Inr r, w2))
           | None \<Rightarrow> (Inl (not_recognized s (map fst options)), w))
      | Instance a \<Rightarrow> (let (r, w1) = deepcopy (Some a) w in (Inr r, w1))
      | NoInference \<Rightarrow> (let (r, w1) = deepcopy None w in (Inr r, w1)))"

text \<open>\<open>BaseCateEstimator._prefit\<close> and its override in \<open>TreatmentExpansionMixin\<close>.\<close>

definition base_prefit ::
  "'a ndarray \<Rightarrow> 'a ndarray \<Rightarrow> ('a, 'm) estimator \<Rightarrow> ('a, 'm) estimator" where
  "base_prefit Y T self = self\<lparr>d_y := Some (drop 1 (shp Y)), d_t := Some (drop 1 (shp T))\<rparr>"

definition mixin_prefit ::
  "'a ndarray \<Rightarrow> 'a ndarray \<Rightarrow> ('a, 'm) estimator \<Rightarrow> ('a, 'm) estimator" where
  "mixin_prefit Y T self = (let self = base_prefit Y T self in self\<lparr>d_t_in := d_t self\<rparr>)"

definition prefit ::
  "klass \<Rightarrow> 'a ndarray \<Rightarrow> 'a ndarray \<Rightarrow> ('a, 'm) estimator \<Rightarrow> ('a, 'm) estimator" where
  "prefit k = (if treatment_expansion k then mixin_prefit else base_prefit)"

text \<open>The steps of \<open>_wrap_fit\<close>'s \<open>call\<close>, each on the world, and their sequencing.\<close>

definition and_then ::
  "('w \<Rightarrow> error option \<times> 'w) \<Rightarrow> ('w \<Rightarrow> (error + 'r) \<times> 'w) \<Rightarrow> 'w \<Rightarrow> (error + 'r) \<times> 'w" where
  "and_then step rest w =
     (case step w of (Some e, w') \<Rightarrow> (Inl e, w') | (None, w') \<Rightarrow> rest w')"

definition do_prefit ::
  "klass \<Rightarrow> nat \<Rightarrow> 'a ndarray \<Rightarrow> 'a ndarray \<Rightarrow> ('a, 'i, 'm) world
     \<Rightarrow> error option \<times> ('a, 'i, 'm) world" where
  "do_prefit k self Y T w =
     (None,
      w\<lparr>estimators := (estimators w)[self := prefit k Y T (estimators w ! self)],
        log := log w @ [RecordShapes self]\<rparr>)"

definition call_inference_prefit ::
  "('a, 'i, 'm, 'g) hooks \<Rightarrow> addr option \<Rightarrow> nat \<Rightarrow> 'a ndarray \<Rightarrow> 'a ndarray \<Rightarrow> 'g
     \<Rightarrow> ('a, 'i, 'm) world \<Rightarrow> error option \<times> ('a, 'i, 'm) world" where
  "call_inference_prefit h inference self Y T args w =
     (case inference of
        None \<Rightarrow> (None, w)
      | Some a \<Rightarrow>
          (case inference_prefit h (heap w ! a) (estimators w ! self) Y T args of
             (r, i', self') \<Rightarrow>
               (r, w\<lparr>estimators := (estimators w)[self := self'],
                     heap := (heap w)[a := i'],
                     log := log w @ [InferencePrefit a self]\<rparr>)))"

definition call_body ::
  "('a, 'm, 'g) fit_body \<Rightarrow> nat \<Rightarrow> 'a ndarray \<Rightarrow> 'a ndarray \<Rightarrow> 'g
     \<Rightarrow> ('a, 'i, 'm) world \<Rightarrow> error option \<times> ('a, 'i, 'm) world" where
  "call_body m self Y T args w =
     (case m (estimators w ! self) Y T args of
        (r, self') \<Rightarrow>
          (r, w\<lparr>estimators := (estimators w)[self := self'],
                log := log w @ [ModelFit self]\<rparr>))"

definition call_inference_fit ::
  "('a, 'i, 'm, 'g) hooks \<Rightarrow> addr option \<Rightarrow> nat \<Rightarrow> 'a ndarray \<Rightarrow> 'a ndarray \<Rightarrow> 'g
     \<Rightarrow> ('a, 'i, 'm) world \<Rightarrow> error option \<times> ('a, 'i, 'm) world" where
  "call_inference_fit h inference self Y T args w =
     (case inference of
        None \<Rightarrow> (None, w)
      | Some a \<Rightarrow>
          (case inference_fit h (heap w ! a) (estimators w ! self) Y T args of
             (r, i', self') \<Rightarrow>
               (r, w\<lparr>estimators := (estimators w)[self := self'],
                     heap := (heap w)[a := i'],
                     log := log w @ [InferenceFit a self]\<rparr>)))"

definition slot_of :: "addr option \<Rightarrow> inference_slot" where
  "slot_of r = (case r of None \<Rightarrow> PyNone | Some a \<Rightarrow> Obj a)"

definition store_inference ::
  "nat \<Rightarrow> addr option \<Rightarrow> ('a, 'i, 'm) world \<Rightarrow> ('a, 'i, 'm) world" where
  "store_inference self inference w =
     w\<lparr>estimators :=
         (estimators w)[self := (estimators w ! self)\<lparr>stored_inference := slot_of inference\<rparr>],
       log := log w @ [StoreInference self (slot_of inference)]\<rparr>"

text \<open>\<open>BaseCateEstimator._wrap_fit(m)\<close>: the \<open>call\<close> it returns.\<close>

definition wrap_fit ::
  "('a, 'i, 'm, 'g) hooks \<Rightarrow> klass \<Rightarrow> ('a, 'm, 'g) fit_body \<Rightarrow> nat \<Rightarrow> 'a ndarray \<Rightarrow> 'a ndarray
     \<Rightarrow> 'g \<Rightarrow> inference_arg \<Rightarrow> ('a, 'i, 'm) world \<Rightarrow> (error + nat) \<times> ('a, 'i, 'm) world" where
  "wrap_fit h k m self Y T args inference w =
     (case get_inference h k inference w of
        (Inl e, w1) \<Rightarrow> (Inl e, w1)
      | (Inr inference, w1) \<Rightarrow>
          and_then (do_prefit k self Y T)
         (and_then (call_inference_prefit h inference self Y T args)
         (and_then (call_body m self Y T args)
         (and_then (call_inference_fit h inference self Y T args)
         (\<lambda>w. (Inr self, store_inference self inference w))))) w1)"

section \<open>Methods deferred to the inference object\<close>

text \<open>\<open>BaseCateEstimator._defer_to_inference(m)\<close>: the \<open>call\<close> it returns, \<open>name = m.__name__\<close>.\<close>

definition defer_to_inference ::
  "('a, 'i, 'm, 'g) hooks \<Rightarrow> klass \<Rightarrow> string \<Rightarrow> nat \<Rightarrow> 'a call_args \<Rightarrow> ('a, 'i, 'm) world
     \<Rightarrow> error + 'a ndarray list" where
  "defer_to_inference h k name self args w =
     (case stored_inference (estimators w ! self) of
        Unassigned \<Rightarrow> Inl (no_attribute k ''_inference'')
      | Obj a \<Rightarrow> inference_call h (heap w ! a) name args
      | PyNone \<Rightarrow>
          Inl (AttributeError (''Can't call '' @ py_quote name @
                               '' because 'inference' is None'')))"

definition effect_interval ::
  "('a, 'i, 'm, 'g) hooks \<Rightarrow> klass \<Rightarrow> nat \<Rightarrow> 'a call_args \<Rightarrow> ('a, 'i, 'm) world
     \<Rightarrow> error + 'a ndarray list" where
  "effect_interval h k = defer_to_inference h k ''effect_interval''"

definition base_marginal_effect_interval ::
  "('a, 'i, 'm, 'g) hooks \<Rightarrow> klass \<Rightarrow> nat \<Rightarrow> 'a call_args \<Rightarrow> ('a, 'i, 'm) world
     \<Rightarrow> error + 'a ndarray list" where
  "base_marginal_effect_interval h k = defer_to_inference h k ''marginal_effect_interval''"

definition const_marginal_effect_interval ::
  "('a, 'i, 'm, 'g) hooks \<Rightarrow> klass \<Rightarrow> nat \<Rightarrow> 'a call_args \<Rightarrow> ('a, 'i, 'm) world
     \<Rightarrow> error + 'a ndarray list" where
  "const_marginal_effect_interval h k = defer_to_inference h k ''const_marginal_effect_interval''"

definition coef__interval ::
  "('a, 'i, 'm, 'g) hooks \<Rightarrow> klass \<Rightarrow> nat \<Rightarrow> 'a call_args \<Rightarrow> ('a, 'i, 'm) world
     \<Rightarrow> error + 'a ndarray list" where
  "coef__interval h k = defer_to_inference h k ''coef__interval''"

definition intercept__interval ::
  "('a, 'i, 'm, 'g) hooks \<Rightarrow> klass \<Rightarrow> nat \<Rightarrow> 'a call_args \<Rightarrow> ('a, 'i, 'm) world
     \<Rightarrow> error + 'a ndarray list" where
  "intercept__interval h k = defer_to_inference h k ''intercept__interval''"

text \<open>
  \<open>LinearCateEstimator.marginal_effect_interval(T, X=None, *, alpha=0.1)\<close>, which overrides
  the deferred method of the base class. The generator inside \<open>tuple(...)\<close> stops at the
  first exception.
\<close>

fun each_or_first_error :: "('a \<Rightarrow> error + 'b) \<Rightarrow> 'a list \<Rightarrow> error + 'b list" where
  "each_or_first_error f [] = Inr []"
| "each_or_first_error f (x # xs) =
     bind_err (f x) (\<lambda>y. bind_err (each_or_first_error f xs) (\<lambda>ys. Inr (y # ys)))"

definition linear_marginal_effect_interval ::
  "('a, 'i, 'm, 'g) hooks \<Rightarrow> klass \<Rightarrow> nat \<Rightarrow> 'a ndarray \<Rightarrow> 'a ndarray option \<Rightarrow> 'a ndarray option
     \<Rightarrow> ('a, 'i, 'm) world \<Rightarrow> error + 'a ndarray list" where
  "linear_marginal_effect_interval h k self T X alpha w =
     bind_err (const_marginal_effect_interval h k self ([], [(''X'', X), (''alpha'', alpha)]) w)
       (each_or_first_error
          (\<lambda>eff. if X = None then bind_err (tuple0 (shape T)) (np_repeat eff) else Inr eff))"

section \<open>The specification's order of the steps of fit\<close>


section \<open>External code that leaves the recorded shapes alone\<close>

text \<open>
  The wrapped body and the inference hooks are handed the estimator and may assign any of
  its attributes. \<open>leaves_shapes self self'\<close> says that a call that took the estimator
  from \<open>self\<close> to \<open>self'\<close> assigned none of \<open>_d_y\<close>, \<open>_d_t\<close>, \<open>_d_t_in\<close>.
\<close>

definition leaves_shapes :: "('a, 'm) estimator \<Rightarrow> ('a, 'm) estimator \<Rightarrow> bool" where
  "leaves_shapes self self' =
     (d_y self' = d_y self \<and> d_t self' = d_t self \<and> d_t_in self' = d_t_in self)"

section \<open>Example inputs\<close>

text \<open>
  A linear estimator with two outcomes and three treatments: one row of constant marginal
  effects when \<open>X\<close> is \<open>None\<close>, one row per row of \<open>X\<close> otherwise.
\<close>

definition ex_theta :: "int ndarray option \<Rightarrow> error + int ndarray" where
  "ex_theta X =
     (case X of
        None \<Rightarrow> Inr \<lparr>shp = [1, 2, 3], dat = [1, 2, 3, 4, 5, 6]\<rparr>
      | Some x \<Rightarrow>
          Inr \<lparr>shp = [hd (shp x), 2, 3],
               dat = concat (replicate (hd (shp x)) [1, 2, 3, 4, 5, 6])\<rparr>)"

definition ex_linear :: "int cate_methods" where
  "ex_linear =
     \<lparr>expand_treatments = base_expand_treatments, const_marginal_effect = ex_theta\<rparr>"

text \<open>The same with \<open>Y\<close> and \<open>T\<close> vectors: one number per sample.\<close>

definition ex_theta_vec :: "int ndarray option \<Rightarrow> error + int ndarray" where
  "ex_theta_vec X =
     (case X of
        None \<Rightarrow> Inr \<lparr>shp = [1], dat = [5]\<rparr>
      | Some x \<Rightarrow> Inr \<lparr>shp = [hd (shp x)], dat = map int [2..<2 + hd (shp x)]\<rparr>)"

definition ex_linear_vec :: "int cate_methods" where
  "ex_linear_vec =
     \<lparr>expand_treatments = base_expand_treatments, const_marginal_effect = ex_theta_vec\<rparr>"

definition ex_X :: "int ndarray" where
  "ex_X = \<lparr>shp = [2, 1], dat = [7, 8]\<rparr>"

definition ex_T0 :: "int ndarray" where
  "ex_T0 = \<lparr>shp = [2, 3], dat = [0, 0, 0, 1, 1, 1]\<rparr>"

definition ex_T1 :: "int ndarray" where
  "ex_T1 = \<lparr>shp = [2, 3], dat = [1, 0, 0, 2, 2, 2]\<rparr>"

definition ex_t0 :: "int ndarray" where
  "ex_t0 = \<lparr>shp = [2], dat = [1, 1]\<rparr>"

definition ex_t1 :: "int ndarray" where
  "ex_t1 = \<lparr>shp = [2], dat = [2, 4]\<rparr>"



text \<open>
  A fitted estimator with the treatment-expansion mixin: two treatments, and a transformer
  that negates its input.
\<close>

definition ex_klass :: klass where
  "ex_klass =
     \<lparr>class_name = ''LinearDMLCateEstimator'', treatment_expansion = True,
      statsmodels_mixin = True\<rparr>"

definition ex_negating :: "int ndarray \<Rightarrow> error + int ndarray" where
  "ex_negating T = Inr (negate T)"

definition ex_expanding :: "(int, nat) estimator" where
  "ex_expanding =
     \<lparr>d_y = Some [], d_t = Some [2], d_t_in = Some [2], stored_inference = PyNone,
      transformer = Some ex_negating, fitted = 1\<rparr>"

definition ex_scalar :: "int ndarray" where
  "ex_scalar = \<lparr>shp = [], dat = [3]\<rparr>"

text \<open>
  Stand-ins for the absent collaborators. An inference object is the list of numbers it
  has been fitted on: \<open>fit\<close> appends the sum of \<open>Y\<close>; the interval methods it has answer
  with bounds around the sum of that list. The wrapped body counts the fits.
\<close>

definition ex_interval :: "int list \<Rightarrow> int \<Rightarrow> int ndarray list" where
  "ex_interval i width =
     [\<lparr>shp = [1], dat = [sum_list i - width]\<rparr>, \<lparr>shp = [1], dat = [sum_list i + width]\<rparr>]"

definition ex_call :: "int list \<Rightarrow> string \<Rightarrow> int call_args \<Rightarrow> error + int ndarray list" where
  "ex_call i name args =
     (if name = ''const_marginal_effect_interval'' then Inr (ex_interval i 1)
      else if name = ''marginal_effect_interval'' then Inr (ex_interval i 2)
      else if name = ''effect_interval'' then Inr (ex_interval i 3)
      else Inl (AttributeError (''no such method: '' @ name)))"

definition ex_hooks :: "(int, int list, nat, unit) hooks" where
  "ex_hooks =
     \<lparr>new_inference = (\<lambda>c. []),
      inference_prefit = (\<lambda>i self Y T args. (None, i, self)),
      inference_fit = (\<lambda>i self Y T args. (None, i @ [sum_list (dat Y)], self)),
      inference_call = ex_call\<rparr>"

definition ex_body :: "(int, nat, unit) fit_body" where
  "ex_body self Y T args = (None, self\<lparr>fitted := Suc (fitted self)\<rparr>)"

text \<open>
  A wrapped body that does what the comment in \<open>TreatmentExpansionMixin._prefit\<close> asks of
  subclasses: it overwrites \<open>_d_t\<close> with the dimensions of the transformed treatment.
\<close>

definition ex_encoding_body :: "(int, nat, unit) fit_body" where
  "ex_encoding_body self Y T args = (None, self\<lparr>d_t := Some [2], fitted := Suc (fitted self)\<rparr>)"

text \<open>Two estimators no \<open>fit\<close> has run on, and one inference object made by the caller.\<close>

definition ex_fresh :: "(int, nat) estimator" where
  "ex_fresh =
     \<lparr>d_y = None, d_t = None, d_t_in = None, stored_inference = Unassigned,
      transformer = None, fitted = 0\<rparr>"

definition ex_world :: "(int, int list, nat) world" where
  "ex_world = \<lparr>estimators = [ex_fresh, ex_fresh], heap = [[]], log = []\<rparr>"

definition ex_Y :: "int ndarray" where
  "ex_Y = \<lparr>shp = [2], dat = [10, 20]\<rparr>"

definition ex_Y2 :: "int ndarray" where
  "ex_Y2 = \<lparr>shp = [2], dat = [300, 400]\<rparr>"

text \<open>A value for \<open>alpha\<close>; the stand-in inference object does not read it.\<close>

definition ex_alpha :: "int ndarray" where
  "ex_alpha = \<lparr>shp = [], dat = [0]\<rparr>"

section \<open>Facts about arrays\<close>








section \<open>The effect of a linear estimator is a contraction\<close>

subsection \<open>What einsum computes for the four subscript strings\<close>

lemma label_dim_same:
  assumes "\<forall>p\<in>set env. fst p = l \<longrightarrow> snd p = d" and "\<exists>p\<in>set env. fst p = l"
  shows "label_dim env l = d"
proof -
  let ?ds = "map snd (filter (\<lambda>p. fst p = l) env)"
  have all: "\<forall>x\<in>set ?ds. x = d" using assms(1) by auto
  have ne: "?ds \<noteq> []" using assms(2) by (auto simp: filter_empty_conv)
  show ?thesis
  proof (cases "d = 1")
    case True
    then have "filter (\<lambda>d. d \<noteq> 1) ?ds = []" using all by (auto simp: filter_empty_conv)
    then show ?thesis using True by (simp add: label_dim_def)
  next
    case False
    then have f: "filter (\<lambda>d. d \<noteq> 1) ?ds = ?ds" using all by (auto simp: filter_id_conv)
    obtain x xs where xs: "?ds = x # xs" using ne by (cases ?ds) auto
    then have "x = d" using all by (metis list.set_intros(1))
    then show ?thesis using f xs by (simp add: label_dim_def)
  qed
qed

lemma parse_myt_mt_my: "parse_subscripts ''myt,mt->my'' = Some (''myt'', ''mt'', ''my'')"
  by (simp add: parse_subscripts_def split_on_def is_label_def Let_def)

lemma parse_my_m_my: "parse_subscripts ''my,m->my'' = Some (''my'', ''m'', ''my'')"
  by (simp add: parse_subscripts_def split_on_def is_label_def Let_def)

lemma parse_mt_mt_m: "parse_subscripts ''mt,mt->m'' = Some (''mt'', ''mt'', ''m'')"
  by (simp add: parse_subscripts_def split_on_def is_label_def Let_def)

lemma parse_m_m_m: "parse_subscripts ''m,m->m'' = Some (''m'', ''m'', ''m'')"
  by (simp add: parse_subscripts_def split_on_def is_label_def Let_def)

lemma einsum_myt_mt_my:
  assumes "shp a = [m, dy, dt]" "shp b = [m, dt]"
  shows "np_einsum ''myt,mt->my'' a b =
    Inr \<lparr>shp = [m, dy],
         dat = concat (map (\<lambda>i. map (\<lambda>y.
                 sum_list (map (\<lambda>t. get a [i, y, t] * get b [i, t]) [0..<dt]))
                 [0..<dy]) [0..<m])\<rparr>"
proof -
  let ?env = "zip ''myt'' (shp a) @ zip ''mt'' (shp b)"
  have "label_dim ?env (CHR ''m'') = m" by (rule label_dim_same) (auto simp: assms)
  moreover have "label_dim ?env (CHR ''y'') = dy" by (rule label_dim_same) (auto simp: assms)
  moreover have "label_dim ?env (CHR ''t'') = dt" by (rule label_dim_same) (auto simp: assms)
  ultimately show ?thesis
    apply (simp add: np_einsum_def parse_myt_mt_my ndim_def assms tabulate_def
        operand_index_def map_concat comp_def Let_def)
    apply (auto intro!: arg_cong[where f=concat] arg_cong[where f=sum_list] map_cong)
    done
qed

lemma einsum_my_m_my:
  assumes "shp a = [m, dy]" "shp b = [m]"
  shows "np_einsum ''my,m->my'' a b =
    Inr \<lparr>shp = [m, dy],
         dat = concat (map (\<lambda>i. map (\<lambda>y. get a [i, y] * get b [i]) [0..<dy]) [0..<m])\<rparr>"
proof -
  let ?env = "zip ''my'' (shp a) @ zip ''m'' (shp b)"
  have "label_dim ?env (CHR ''m'') = m" by (rule label_dim_same) (auto simp: assms)
  moreover have "label_dim ?env (CHR ''y'') = dy" by (rule label_dim_same) (auto simp: assms)
  ultimately show ?thesis
    apply (simp add: np_einsum_def parse_my_m_my ndim_def assms tabulate_def
        operand_index_def map_concat comp_def Let_def)
    apply (auto intro!: arg_cong[where f=concat] arg_cong[where f=sum_list] map_cong)
    done
qed

lemma einsum_mt_mt_m:
  assumes "shp a = [m, dt]" "shp b = [m, dt]"
  shows "np_einsum ''mt,mt->m'' a b =
    Inr \<lparr>shp = [m],
         dat = map (\<lambda>i. sum_list (map (\<lambda>t. get a [i, t] * get b [i, t]) [0..<dt])) [0..<m]\<rparr>"
proof -
  let ?env = "zip ''mt'' (shp a) @ zip ''mt'' (shp b)"
  have "label_dim ?env (CHR ''m'') = m" by (rule label_dim_same) (auto simp: assms)
  moreover have "label_dim ?env (CHR ''t'') = dt" by (rule label_dim_same) (auto simp: assms)
  ultimately show ?thesis
    apply (simp add: np_einsum_def parse_mt_mt_m ndim_def assms tabulate_def
        operand_index_def map_concat comp_def Let_def)
    apply (auto intro!: arg_cong[where f=concat] arg_cong[where f=sum_list] map_cong)
    done
qed

lemma einsum_m_m_m:
  assumes "shp a = [m]" "shp b = [m]"
  shows "np_einsum ''m,m->m'' a b =
    Inr \<lparr>shp = [m], dat = map (\<lambda>i. get a [i] * get b [i]) [0..<m]\<rparr>"
proof -
  let ?env = "zip ''m'' (shp a) @ zip ''m'' (shp b)"
  have "label_dim ?env (CHR ''m'') = m" by (rule label_dim_same) (auto simp: assms)
  then show ?thesis
    by (simp add: np_einsum_def parse_m_m_m ndim_def assms tabulate_def
        operand_index_def map_concat comp_def Let_def)
qed

lemma einsum_contraction:
  assumes seff: "shp eff = m # opt_axis dy @ opt_axis dt"
    and sdT: "shp dT = m # opt_axis dt"
  shows "np_einsum (einsum_str eff dT) eff dT = Inr (spec_contraction m dy dt eff dT)"
proof (cases dy; cases dt)
  fix y t assume "dy = Some y" "dt = Some t"
  then show ?thesis using assms
    by (simp add: einsum_str_def ndim_def opt_axis_def str_remove_def einsum_myt_mt_my
        spec_contraction_def axis_indices_def comp_def)
next
  fix y assume "dy = Some y" "dt = None"
  then show ?thesis using assms
    by (simp add: einsum_str_def ndim_def opt_axis_def str_remove_def einsum_my_m_my
        spec_contraction_def axis_indices_def comp_def)
next
  fix t assume "dy = None" "dt = Some t"
  then show ?thesis using assms
    by (simp add: einsum_str_def ndim_def opt_axis_def str_remove_def einsum_mt_mt_m
        spec_contraction_def axis_indices_def comp_def)
next
  assume "dy = None" "dt = None"
  then show ?thesis using assms
    by (simp add: einsum_str_def ndim_def opt_axis_def str_remove_def einsum_m_m_m
        spec_contraction_def axis_indices_def comp_def)
qed

subsection \<open>The theorem\<close>

text \<open>
  C1. \<open>LinearCateEstimator.effect(X, T0=T0, T1=T1)\<close>: let \<open>X'\<close>, \<open>T0'\<close>, \<open>T1'\<close> be what
  \<open>_expand_treatments\<close> returns (the arguments themselves for the base class), \<open>eff\<close> be
  \<open>const_marginal_effect(X')\<close>, repeated along axis 0 by the row count of \<open>T0'\<close> when \<open>X'\<close> is
  \<open>None\<close>, and \<open>dT = T1' - T0'\<close>. When \<open>eff\<close> has shape \<open>(m, d_y, d_t)\<close> and \<open>dT\<close> has shape
  \<open>(m, d_t)\<close>, with the \<open>y\<close> axis absent when \<open>Y\<close> is a vector (\<open>dy = None\<close>) and the \<open>t\<close> axis
  absent when \<open>T\<close> is a vector (\<open>dt = None\<close>), the result is the contraction
  \<open>effect[m,y] = \<Sum>t. eff[m,y,t] * dT[m,t]\<close> with the same axes dropped. All four
  combinations are covered, with and without \<open>X\<close>.
\<close>

theorem effect_is_contraction:
  assumes ex: "expand_treatments self X [T0, T1] = (ws, Inr (X', [T0', T1']))"
    and cme: "const_marginal_effect self X' = Inr eff0"
    and rep: "(if X' = None then bind_err (tuple0 (shape T0')) (np_repeat eff0) else Inr eff0)
                = Inr eff"
    and sub: "np_sub T1' T0' = Inr dT"
    and seff: "shape eff = m # opt_axis dy @ opt_axis dt"
    and sdT: "shape dT = m # opt_axis dt"
  shows "effect self X T0 T1 = (ws, Inr (spec_contraction m dy dt eff dT))"
proof -
  have m: "tuple0 (shape eff) = Inr m" using seff by (simp add: tuple0_def)
  have "np_einsum (einsum_str eff dT) eff dT = Inr (spec_contraction m dy dt eff dT)"
    using seff sdT by (intro einsum_contraction) (simp_all add: shape_def)
  then show ?thesis
    using ex cme rep sub m by (simp add: effect_def bind_err_def)
qed

theorem effect_is_contraction_witness:
  "effect ex_linear None ex_T0 ex_T1 = ([], Inr \<lparr>shp = [2, 2], dat = [1, 4, 6, 15]\<rparr>) \<and>
   effect ex_linear_vec (Some ex_X) ex_t0 ex_t1 = ([], Inr \<lparr>shp = [2], dat = [2, 9]\<rparr>)"
proof -
  let ?eff = "\<lparr>shp = [2, 2, 3], dat = [1, 2, 3, 4, 5, 6, 1, 2, 3, 4, 5, 6 :: int]\<rparr>"
  let ?dT = "\<lparr>shp = [2, 3], dat = [1, 0, 0, 1, 1, 1 :: int]\<rparr>"
  have "expand_treatments ex_linear None [ex_T0, ex_T1] = ([], Inr (None, [ex_T0, ex_T1]))"
    by (simp add: ex_linear_def base_expand_treatments_def)
  moreover have "const_marginal_effect ex_linear None = Inr \<lparr>shp = [1, 2, 3], dat = [1, 2, 3, 4, 5, 6]\<rparr>"
    by (simp add: ex_linear_def ex_theta_def)
  moreover have "(if (None :: int ndarray option) = None
        then bind_err (tuple0 (shape ex_T0)) (np_repeat \<lparr>shp = [1, 2, 3], dat = [1, 2, 3, 4, 5, 6]\<rparr>)
        else Inr \<lparr>shp = [1, 2, 3], dat = [1, 2, 3, 4, 5, 6]\<rparr>) = Inr ?eff"
    by code_simp
  moreover have "np_sub ex_T1 ex_T0 = Inr ?dT"
    by code_simp
  moreover have "shape ?eff = 2 # opt_axis (Some 2) @ opt_axis (Some 3)"
    by (simp add: shape_def opt_axis_def)
  moreover have "shape ?dT = 2 # opt_axis (Some 3)"
    by (simp add: shape_def opt_axis_def)
  ultimately have "effect ex_linear None ex_T0 ex_T1
      = ([], Inr (spec_contraction 2 (Some 2) (Some 3) ?eff ?dT))"
    by (rule effect_is_contraction)
  moreover have "spec_contraction 2 (Some 2) (Some 3) ?eff ?dT = \<lparr>shp = [2, 2], dat = [1, 4, 6, 15]\<rparr>"
    by code_simp
  ultimately have first: "effect ex_linear None ex_T0 ex_T1
      = ([], Inr \<lparr>shp = [2, 2], dat = [1, 4, 6, 15]\<rparr>)"
    by simp
  let ?e = "\<lparr>shp = [2], dat = [2, 3 :: int]\<rparr>"
  let ?d = "\<lparr>shp = [2], dat = [1, 3 :: int]\<rparr>"
  have "expand_treatments ex_linear_vec (Some ex_X) [ex_t0, ex_t1]
      = ([], Inr (Some ex_X, [ex_t0, ex_t1]))"
    by (simp add: ex_linear_vec_def base_expand_treatments_def)
  moreover have "const_marginal_effect ex_linear_vec (Some ex_X) = Inr ?e"
    by code_simp
  moreover have "(if Some ex_X = None then bind_err (tuple0 (shape ex_t0)) (np_repeat ?e)
        else Inr ?e) = Inr ?e"
    by simp
  moreover have "np_sub ex_t1 ex_t0 = Inr ?d"
    by code_simp
  moreover have "shape ?e = 2 # opt_axis None @ opt_axis None"
    by (simp add: shape_def opt_axis_def)
  moreover have "shape ?d = 2 # opt_axis None"
    by (simp add: shape_def opt_axis_def)
  ultimately have "effect ex_linear_vec (Some ex_X) ex_t0 ex_t1
      = ([], Inr (spec_contraction 2 None None ?e ?d))"
    by (rule effect_is_contraction)
  moreover have "spec_contraction 2 None None ?e ?d = \<lparr>shp = [2], dat = [2, 9]\<rparr>"
    by code_simp
  ultimately have "effect ex_linear_vec (Some ex_X) ex_t0 ex_t1
      = ([], Inr \<lparr>shp = [2], dat = [2, 9]\<rparr>)"
    by simp
  with first show ?thesis by simp
qed

section \<open>The marginal effect of a linear estimator\<close>




section \<open>The effect depends on the treatments through their difference\<close>

subsection \<open>einsum in general: every entry read lies inside the operand\<close>













subsection \<open>The theorem\<close>






section \<open>Scalar treatments are broadcast, with a warning when there are several treatments\<close>

lemma expand_one_fitted:
  assumes "d_t_in self = Some dti"
  shows "expand_one k self n T =
    ((if spec_warns dti T then [scalar_warning] else []),
     apply_transformer self (spec_broadcast n dti T))"
  using assms by (simp add: expand_one_def spec_warns_def spec_broadcast_def np_full_def)

lemma expand_loop_returned:
  assumes "expand_loop k self n Ts = (ws, Inr Ts')" and dti: "d_t_in self = Some dti"
  shows "ws = map (\<lambda>T. scalar_warning) (filter (spec_warns dti) Ts) \<and>
         list_all2 (\<lambda>T T'. apply_transformer self (spec_broadcast n dti T) = Inr T') Ts Ts'"
  using assms(1)
proof (induction Ts arbitrary: ws Ts')
  case Nil
  then show ?case by simp
next
  case (Cons T Ts)
  from Cons.prems obtain w1 T1 w2 Ts2 where
    one: "expand_one k self n T = (w1, Inr T1)" and
    rest: "expand_loop k self n Ts = (w2, Inr Ts2)" and
    ws: "ws = w1 @ w2" and Ts': "Ts' = T1 # Ts2"
    by (auto split: prod.splits sum.splits)
  from one have "w1 = (if spec_warns dti T then [scalar_warning] else [])"
    and "apply_transformer self (spec_broadcast n dti T) = Inr T1"
    by (simp_all add: expand_one_fitted [OF dti])
  with Cons.IH [OF rest] ws Ts' show ?case
    by auto
qed

lemma expand_loop_returns:
  assumes "list_all2 (\<lambda>T T'. apply_transformer self (spec_broadcast n dti T) = Inr T') Ts Ts'"
    and dti: "d_t_in self = Some dti"
  shows "expand_loop k self n Ts
           = (map (\<lambda>T. scalar_warning) (filter (spec_warns dti) Ts), Inr Ts')"
  using assms(1)
  by (induction Ts Ts' rule: list_all2_induct) (simp_all add: expand_one_fitted [OF dti])

text \<open>
  C3. \<open>TreatmentExpansionMixin._expand_treatments(X, *Ts)\<close> on a fitted estimator (\<open>_d_t_in\<close>
  is set). It returns \<open>(X, *Ts')\<close> with the warnings \<open>ws\<close> exactly when: \<open>X\<close> is returned as
  it is; with \<open>n_rows\<close> being 1 for \<open>X = None\<close> and the row count of \<open>X\<close> otherwise, every
  \<open>T'\<close> is what the configured transformer (if any) makes of \<open>T\<close>, after a zero-dimensional
  \<open>T\<close> has become the array of shape \<open>(n_rows,) + d_t_in\<close> with its value at every position;
  and there is one warning for each argument that is zero-dimensional while \<open>d_t_in\<close> is
  non-empty with \<open>d_t_in[0] > 1\<close>, and none for any other.
\<close>

theorem expand_treatments_broadcasts:
  assumes dti: "d_t_in self = Some dti"
  shows "mixin_expand_treatments k self X Ts = (ws, Inr (X', Ts')) \<longleftrightarrow>
         X' = X \<and>
         ws = map (\<lambda>T. scalar_warning) (filter (spec_warns dti) Ts) \<and>
         (\<exists>n_rows. (case X of None \<Rightarrow> n_rows = 1 | Some x \<Rightarrow> \<exists>rest. shape x = n_rows # rest) \<and>
            list_all2 (\<lambda>T T'. apply_transformer self (spec_broadcast n_rows dti T) = Inr T')
              Ts Ts')"
proof (cases "case X of None \<Rightarrow> Inr 1 | Some x \<Rightarrow> tuple0 (shape x)")
  case (Inl e)
  then have "\<not> (case X of None \<Rightarrow> n = 1 | Some x \<Rightarrow> \<exists>rest. shape x = n # rest)" for n
    by (auto simp: tuple0_def split: option.splits list.splits)
  then show ?thesis
    using Inl by (simp add: mixin_expand_treatments_def)
next
  case (Inr n)
  then have n: "(case X of None \<Rightarrow> m = 1 | Some x \<Rightarrow> \<exists>rest. shape x = m # rest) \<longleftrightarrow> m = n" for m
    by (auto simp: tuple0_def split: option.splits list.splits)
  have "mixin_expand_treatments k self X Ts = (ws, Inr (X', Ts')) \<longleftrightarrow>
      X' = X \<and> expand_loop k self n Ts = (ws, Inr Ts')"
    using Inr by (auto simp: mixin_expand_treatments_def split: prod.splits sum.splits)
  also have "expand_loop k self n Ts = (ws, Inr Ts') \<longleftrightarrow>
      ws = map (\<lambda>T. scalar_warning) (filter (spec_warns dti) Ts) \<and>
      list_all2 (\<lambda>T T'. apply_transformer self (spec_broadcast n dti T) = Inr T') Ts Ts'"
    using expand_loop_returned [OF _ dti] expand_loop_returns [OF _ dti] by blast
  finally show ?thesis
    by (simp add: n)
qed

theorem expand_treatments_broadcasts_witness:
  "mixin_expand_treatments ex_klass ex_expanding (Some ex_X) [ex_scalar, ex_t1]
     = ([scalar_warning],
        Inr (Some ex_X, [\<lparr>shp = [2, 2], dat = [- 3, - 3, - 3, - 3]\<rparr>,
                         \<lparr>shp = [2], dat = [- 2, - 4]\<rparr>]))"
proof -
  have dti: "d_t_in ex_expanding = Some [2]"
    by (simp add: ex_expanding_def)
  have "[scalar_warning] = map (\<lambda>T. scalar_warning) (filter (spec_warns [2]) [ex_scalar, ex_t1])"
    by (simp add: spec_warns_def ndim_def ex_scalar_def ex_t1_def)
  moreover have "shape ex_X = 2 # [1]"
    by (simp add: shape_def ex_X_def)
  moreover have "list_all2
      (\<lambda>T T'. apply_transformer ex_expanding (spec_broadcast 2 [2] T) = Inr T')
      [ex_scalar, ex_t1]
      [\<lparr>shp = [2, 2], dat = [- 3, - 3, - 3, - 3]\<rparr>, \<lparr>shp = [2], dat = [- 2, - 4]\<rparr>]"
    by (simp add: apply_transformer_def ex_expanding_def ex_negating_def negate_def
        spec_broadcast_def ndim_def ex_scalar_def ex_t1_def get_def numeral_eq_Suc)
  ultimately show ?thesis
    using expand_treatments_broadcasts [OF dti, of ex_klass "Some ex_X" "[ex_scalar, ex_t1]"
        "[scalar_warning]" "Some ex_X"
        "[\<lparr>shp = [2, 2], dat = [- 3, - 3, - 3, - 3]\<rparr>, \<lparr>shp = [2], dat = [- 2, - 4]\<rparr>]"]
    by auto
qed

section \<open>The registry of inference options\<close>

text \<open>
  C9. The registry of \<open>BaseCateEstimator\<close> has the one key \<open>'bootstrap'\<close>, for
  \<open>BootstrapInference\<close>; the registry of \<open>StatsModelsCateEstimatorMixin\<close> is the parent's
  with \<open>'statsmodels'\<close> added, for \<open>StatsModelsInference\<close>; a class has the second when the
  mixin is among its bases and the first otherwise.
\<close>

theorem inference_registry:
  "map_of base_get_inference_options = [''bootstrap'' \<mapsto> BootstrapInference] \<and>
   map fst base_get_inference_options = [''bootstrap''] \<and>
   map_of statsmodels_get_inference_options
     = (map_of base_get_inference_options)(''statsmodels'' \<mapsto> StatsModelsInference) \<and>
   map fst statsmodels_get_inference_options = [''bootstrap'', ''statsmodels''] \<and>
   get_inference_options k
     = (if statsmodels_mixin k then statsmodels_get_inference_options
        else base_get_inference_options)"
proof -
  have "map_of statsmodels_get_inference_options
      = (map_of base_get_inference_options)(''statsmodels'' \<mapsto> StatsModelsInference)"
    by (simp only: statsmodels_get_inference_options_def Let_def AList.update_conv')
  then show ?thesis
    by (simp add: base_get_inference_options_def statsmodels_get_inference_options_def
        get_inference_options_def)
qed

section \<open>An unknown inference key\<close>

lemma get_inference_unknown:
  assumes "map_of (get_inference_options k) s = None"
  shows "get_inference h k (Name s) w
    = (Inl (not_recognized s (map fst (get_inference_options k))), w)"
  using assms by (simp add: get_inference_def)

text \<open>
  C5. A string that is not a key of the class's registry makes \<open>fit\<close> raise the ValueError
  whose message names the string and lists the registry's keys, and the world is as it
  was: no shape recorded, no hook or body called, no attribute assigned.
\<close>

theorem unknown_inference_key:
  assumes "s \<notin> set (map fst (get_inference_options k))"
  shows "wrap_fit h k m self Y T args (Name s) w =
    (Inl (ValueError (''Inference option '' @ py_quote s @
                      '' not recognized; valid values are '' @
                      list_repr (map fst (get_inference_options k)))), w)"
proof -
  have "map_of (get_inference_options k) s = None"
    using assms by (simp add: map_of_eq_None_iff)
  then show ?thesis
    by (simp add: wrap_fit_def get_inference_unknown not_recognized_def)
qed

theorem unknown_inference_key_witness:
  "wrap_fit ex_hooks ex_klass ex_body 0 ex_Y ex_t0 () (Name ''not-a-method'') ex_world =
     (Inl (ValueError (''Inference option '' @ py_quote ''not-a-method'' @
                       '' not recognized; valid values are ['' @ py_quote ''bootstrap'' @
                       '', '' @ py_quote ''statsmodels'' @ '']'')),
      ex_world)"
proof -
  have "''not-a-method'' \<notin> set (map fst (get_inference_options ex_klass))"
    by (simp add: get_inference_options_def ex_klass_def statsmodels_get_inference_options_def
        base_get_inference_options_def)
  from unknown_inference_key [OF this, of ex_hooks ex_body 0 ex_Y ex_t0 "()" ex_world]
  show ?thesis
    by (simp add: get_inference_options_def ex_klass_def statsmodels_get_inference_options_def
        base_get_inference_options_def list_repr_def)
qed

section \<open>The order of the steps of fit\<close>

lemma and_then_cases:
  assumes "and_then step rest w = (r, w')"
  obtains e where "step w = (Some e, w')" "r = Inl e"
    | w1 where "step w = (None, w1)" "rest w1 = (r, w')"
  using assms by (auto simp: and_then_def split: prod.splits option.splits)

lemma get_inference_Instance:
  "get_inference h k (Instance a) w
    = (Inr (Some (length (heap w))),
       w\<lparr>heap := heap w @ [heap w ! a], log := log w @ [Copied a (length (heap w))]\<rparr>)"
  by (simp add: get_inference_def deepcopy_def)






section \<open>The stored inference object is a private copy\<close>

lemma fit_after_resolution_frame:
  assumes "and_then (do_prefit k self Y T)
            (and_then (call_inference_prefit h inference self Y T args)
            (and_then (call_body m self Y T args)
            (and_then (call_inference_fit h inference self Y T args)
            (\<lambda>w. (Inr self, store_inference self inference w))))) w1 = (r, w')"
  shows "length (estimators w') = length (estimators w1) \<and>
         (\<forall>e. e \<noteq> self \<longrightarrow> estimators w' ! e = estimators w1 ! e) \<and>
         length (heap w') = length (heap w1) \<and>
         (\<forall>b. Some b \<noteq> inference \<longrightarrow> heap w' ! b = heap w1 ! b)"
  using assms
  by (elim and_then_cases)
     (auto simp: do_prefit_def call_inference_prefit_def call_body_def
        call_inference_fit_def store_inference_def split: prod.splits option.splits)

lemma fit_after_resolution_stores:
  assumes "and_then (do_prefit k self Y T)
            (and_then (call_inference_prefit h inference self Y T args)
            (and_then (call_body m self Y T args)
            (and_then (call_inference_fit h inference self Y T args)
            (\<lambda>w. (Inr self, store_inference self inference w))))) w1 = (Inr x, w')"
    and "self < length (estimators w1)"
  shows "stored_inference (estimators w' ! self) = slot_of inference"
  using assms
  by (elim and_then_cases)
     (auto simp: do_prefit_def call_inference_prefit_def call_body_def
        call_inference_fit_def store_inference_def split: prod.splits option.splits)

lemma wrap_fit_frame:
  assumes run: "wrap_fit h k m self Y T args inference w = (r, w')"
  shows "length (estimators w') = length (estimators w) \<and>
         (\<forall>e. e \<noteq> self \<longrightarrow> estimators w' ! e = estimators w ! e) \<and>
         length (heap w) \<le> length (heap w') \<and>
         (\<forall>b < length (heap w). heap w' ! b = heap w ! b)"
proof (cases "get_inference h k inference w")
  case (Pair res w1)
  have res: "(case res of Inl e \<Rightarrow> w1 = w | Inr None \<Rightarrow> w1 = w
              | Inr (Some a) \<Rightarrow> length (heap w) \<le> a \<and> a < length (heap w1)) \<and>
      estimators w1 = estimators w \<and> length (heap w) \<le> length (heap w1) \<and>
      (\<forall>b < length (heap w). heap w1 ! b = heap w ! b)"
    using Pair
    by (cases inference)
       (auto simp: get_inference_def deepcopy_def construct_def nth_append Let_def
          split: option.splits)
  show ?thesis
  proof (cases res)
    case (Inl e)
    then show ?thesis using run Pair res by (simp add: wrap_fit_def)
  next
    case (Inr inf)
    then have chain: "and_then (do_prefit k self Y T)
            (and_then (call_inference_prefit h inf self Y T args)
            (and_then (call_body m self Y T args)
            (and_then (call_inference_fit h inf self Y T args)
            (\<lambda>w. (Inr self, store_inference self inf w))))) w1 = (r, w')"
      using run Pair by (simp add: wrap_fit_def)
    have fresh: "Some b \<noteq> inf" if "b < length (heap w)" for b
      using res Inr that by (cases inf) auto
    from fit_after_resolution_frame [OF chain] res fresh show ?thesis
      by auto
  qed
qed

lemma wrap_fit_stores_copy:
  assumes run: "wrap_fit h k m self Y T args (Instance a) w = (Inr x, w')"
    and valid: "self < length (estimators w)"
  shows "stored_inference (estimators w' ! self) = Obj (length (heap w)) \<and>
         length (heap w') = Suc (length (heap w))"
proof -
  let ?n = "length (heap w)"
  let ?w1 = "w\<lparr>heap := heap w @ [heap w ! a], log := log w @ [Copied a ?n]\<rparr>"
  from run have chain: "and_then (do_prefit k self Y T)
            (and_then (call_inference_prefit h (Some ?n) self Y T args)
            (and_then (call_body m self Y T args)
            (and_then (call_inference_fit h (Some ?n) self Y T args)
            (\<lambda>w. (Inr self, store_inference self (Some ?n) w))))) ?w1 = (Inr x, w')"
    by (simp add: wrap_fit_def get_inference_Instance)
  from fit_after_resolution_stores [OF chain] fit_after_resolution_frame [OF chain] valid
  show ?thesis by (simp add: slot_of_def)
qed

lemma fit_after_resolution_object:
  assumes "and_then (do_prefit k self Y T)
            (and_then (call_inference_prefit h (Some n) self Y T args)
            (and_then (call_body m self Y T args)
            (and_then (call_inference_fit h (Some n) self Y T args)
            (\<lambda>w. (Inr self, store_inference self (Some n) w))))) w1 = (Inr x, w')"
    and "n < length (heap w1)"
  shows "\<exists>s0 s1. heap w' ! n =
           fst (snd (inference_fit h
             (fst (snd (inference_prefit h (heap w1 ! n) s0 Y T args))) s1 Y T args))"
  using assms
  apply (elim and_then_cases)
      apply (auto simp: do_prefit_def call_inference_prefit_def call_body_def
      call_inference_fit_def store_inference_def split: prod.splits)
  apply (metis fst_conv snd_conv)
  done

lemma wrap_fit_copy_content:
  assumes run: "wrap_fit h k m self Y T args (Instance a) w = (Inr x, w')"
  shows "\<exists>s0 s1. heap w' ! length (heap w) =
           fst (snd (inference_fit h
             (fst (snd (inference_prefit h (heap w ! a) s0 Y T args))) s1 Y T args))"
proof -
  let ?n = "length (heap w)"
  let ?w1 = "w\<lparr>heap := heap w @ [heap w ! a], log := log w @ [Copied a ?n]\<rparr>"
  from run have chain: "and_then (do_prefit k self Y T)
            (and_then (call_inference_prefit h (Some ?n) self Y T args)
            (and_then (call_body m self Y T args)
            (and_then (call_inference_fit h (Some ?n) self Y T args)
            (\<lambda>w. (Inr self, store_inference self (Some ?n) w))))) ?w1 = (Inr x, w')"
    by (simp add: wrap_fit_def get_inference_Instance)
  from fit_after_resolution_object [OF chain] show ?thesis by simp
qed

text \<open>
  C6. An inference instance \<open>a\<close> is passed to \<open>fit\<close> on the estimator \<open>e1\<close>, which returns,
  and then to \<open>fit\<close> on another estimator \<open>e2\<close>. What \<open>e1\<close> stores is a fresh object, not
  \<open>a\<close>: the state \<open>a\<close> had when \<open>fit\<close> resolved it, taken through \<open>prefit\<close> and \<open>fit\<close>; \<open>a\<close>
  itself stays as it was. The second \<open>fit\<close> changes neither \<open>e1\<close> nor the object \<open>e1\<close>
  stores, so every method \<open>e1\<close> defers to its inference object returns afterwards what it
  returned before.
\<close>

theorem inference_copy_is_private:
  assumes a: "a < length (heap w)"
    and e1: "e1 < length (estimators w)" and distinct: "e1 \<noteq> e2"
    and fit1: "wrap_fit h k1 m1 e1 Y1 T1 g1 (Instance a) w = (Inr x, w1)"
    and fit2: "wrap_fit h k2 m2 e2 Y2 T2 g2 (Instance a) w1 = (r2, w2)"
  shows "stored_inference (estimators w1 ! e1) = Obj (length (heap w)) \<and>
         length (heap w) \<noteq> a \<and>
         heap w1 ! a = heap w ! a \<and>
         estimators w2 ! e1 = estimators w1 ! e1 \<and>
         heap w2 ! length (heap w) = heap w1 ! length (heap w) \<and>
         heap w2 ! a = heap w ! a \<and>
         (\<exists>s0 s1. heap w1 ! length (heap w) =
            fst (snd (inference_fit h
              (fst (snd (inference_prefit h (heap w ! a) s0 Y1 T1 g1))) s1 Y1 T1 g1))) \<and>
         (\<forall>name q. defer_to_inference h k1 name e1 q w2 = defer_to_inference h k1 name e1 q w1) \<and>
         (\<forall>T X alpha. linear_marginal_effect_interval h k1 e1 T X alpha w2
                        = linear_marginal_effect_interval h k1 e1 T X alpha w1)"
proof -
  let ?n = "length (heap w)"
  note stored = wrap_fit_stores_copy [OF fit1 e1]
  note frame1 = wrap_fit_frame [OF fit1]
  note frame2 = wrap_fit_frame [OF fit2]
  have ne: "?n \<noteq> a" using a by simp
  have a1: "heap w1 ! a = heap w ! a" using frame1 a by simp
  have est: "estimators w2 ! e1 = estimators w1 ! e1" using frame2 distinct by simp
  have n1: "?n < length (heap w1)" using stored by simp
  then have copy: "heap w2 ! ?n = heap w1 ! ?n" using frame2 by simp
  have "a < length (heap w1)" using a n1 by simp
  then have a2: "heap w2 ! a = heap w ! a" using frame2 a1 by simp
  have same: "defer_to_inference h k1 name e1 q w2 = defer_to_inference h k1 name e1 q w1"
    for name q
    using stored est copy by (simp add: defer_to_inference_def)
  then have "linear_marginal_effect_interval h k1 e1 T X alpha w2
      = linear_marginal_effect_interval h k1 e1 T X alpha w1" for T X alpha
    by (simp add: linear_marginal_effect_interval_def const_marginal_effect_interval_def)
  with same stored ne a1 est copy a2 wrap_fit_copy_content [OF fit1] show ?thesis by simp
qed

theorem inference_copy_is_private_witness:
  "stored_inference
     (estimators (snd (wrap_fit ex_hooks ex_klass ex_body 0 ex_Y ex_t0 () (Instance 0) ex_world))
        ! 0) = Obj 1 \<and>
   heap (snd (wrap_fit ex_hooks ex_klass ex_body 1 ex_Y2 ex_t0 () (Instance 0)
          (snd (wrap_fit ex_hooks ex_klass ex_body 0 ex_Y ex_t0 () (Instance 0) ex_world))))
     = [[], [30], [700]] \<and>
   const_marginal_effect_interval ex_hooks ex_klass 0 ([], [])
     (snd (wrap_fit ex_hooks ex_klass ex_body 1 ex_Y2 ex_t0 () (Instance 0)
        (snd (wrap_fit ex_hooks ex_klass ex_body 0 ex_Y ex_t0 () (Instance 0) ex_world))))
     = Inr [\<lparr>shp = [1], dat = [29]\<rparr>, \<lparr>shp = [1], dat = [31]\<rparr>]"
proof -
  let ?fit1 = "wrap_fit ex_hooks ex_klass ex_body 0 ex_Y ex_t0 () (Instance 0) ex_world"
  let ?fit2 = "wrap_fit ex_hooks ex_klass ex_body 1 ex_Y2 ex_t0 () (Instance 0) (snd ?fit1)"
  have "fst ?fit1 = Inr 0"
    by code_simp
  then have fit1: "?fit1 = (Inr 0, snd ?fit1)"
    by (simp add: prod_eq_iff)
  have fit2: "?fit2 = (fst ?fit2, snd ?fit2)"
    by simp
  have "(0::nat) < length (heap ex_world)" "(0::nat) < length (estimators ex_world)" "(0::nat) \<noteq> 1"
    by (simp_all add: ex_world_def)
  from inference_copy_is_private [OF this fit1 fit2]
  have stored: "stored_inference (estimators (snd ?fit1) ! 0) = Obj (length (heap ex_world))"
    and same: "\<forall>name q. defer_to_inference ex_hooks ex_klass name 0 q (snd ?fit2)
        = defer_to_inference ex_hooks ex_klass name 0 q (snd ?fit1)"
    by blast+
  have "const_marginal_effect_interval ex_hooks ex_klass 0 ([], []) (snd ?fit2)
      = const_marginal_effect_interval ex_hooks ex_klass 0 ([], []) (snd ?fit1)"
    using same by (simp add: const_marginal_effect_interval_def)
  moreover have "const_marginal_effect_interval ex_hooks ex_klass 0 ([], []) (snd ?fit1)
      = Inr [\<lparr>shp = [1], dat = [29]\<rparr>, \<lparr>shp = [1], dat = [31]\<rparr>]"
    by code_simp
  moreover have "heap (snd ?fit2) = [[], [30], [700]]"
    by code_simp
  ultimately show ?thesis
    using stored by (simp add: ex_world_def)
qed

section \<open>The recorded shapes\<close>

lemma prefit_records:
  "d_y (prefit k Y T s) = Some (drop 1 (shp Y)) \<and>
   d_t (prefit k Y T s) = Some (drop 1 (shp T)) \<and>
   d_t_in (prefit k Y T s) = (if treatment_expansion k then Some (drop 1 (shp T)) else d_t_in s)"
  by (simp add: prefit_def base_prefit_def mixin_prefit_def)

lemma leaves_shapes_trans:
  "leaves_shapes s1 s2 \<Longrightarrow> leaves_shapes s2 s3 \<Longrightarrow> leaves_shapes s1 s3"
  by (simp add: leaves_shapes_def)

lemma fit_after_resolution_shapes:
  assumes chain: "and_then (do_prefit k self Y T)
            (and_then (call_inference_prefit h inference self Y T args)
            (and_then (call_body m self Y T args)
            (and_then (call_inference_fit h inference self Y T args)
            (\<lambda>w. (Inr self, store_inference self inference w))))) w1 = (Inr x, w')"
    and valid: "self < length (estimators w1)"
    and pre: "\<forall>i s a b g. leaves_shapes s (snd (snd (inference_prefit h i s a b g)))"
    and post: "\<forall>i s a b g. leaves_shapes s (snd (snd (inference_fit h i s a b g)))"
    and body: "\<forall>s a b g. leaves_shapes s (snd (m s a b g))"
  shows "leaves_shapes (prefit k Y T (estimators w1 ! self)) (estimators w' ! self)"
proof -
  from chain obtain w2 w3 w4 w5 where
    s1: "do_prefit k self Y T w1 = (None, w2)" and
    s2: "call_inference_prefit h inference self Y T args w2 = (None, w3)" and
    s3: "call_body m self Y T args w3 = (None, w4)" and
    s4: "call_inference_fit h inference self Y T args w4 = (None, w5)" and
    s5: "w' = store_inference self inference w5"
    by (elim and_then_cases) auto
  have l2: "length (estimators w2) = length (estimators w1)"
    and e2: "estimators w2 ! self = prefit k Y T (estimators w1 ! self)"
    using s1 valid by (auto simp: do_prefit_def)
  have l3: "length (estimators w3) = length (estimators w2)"
    and e3: "leaves_shapes (estimators w2 ! self) (estimators w3 ! self)"
  proof -
    show "length (estimators w3) = length (estimators w2)"
      using s2 by (auto simp: call_inference_prefit_def split: option.splits prod.splits)
    show "leaves_shapes (estimators w2 ! self) (estimators w3 ! self)"
    proof (cases inference)
      case None
      then show ?thesis using s2 by (simp add: call_inference_prefit_def leaves_shapes_def)
    next
      case (Some a)
      from pre have "leaves_shapes (estimators w2 ! self)
          (snd (snd (inference_prefit h (heap w2 ! a) (estimators w2 ! self) Y T args)))"
        by blast
      then show ?thesis
        using s2 Some valid l2 by (auto simp: call_inference_prefit_def split: prod.splits)
    qed
  qed
  have l4: "length (estimators w4) = length (estimators w3)"
    and e4: "leaves_shapes (estimators w3 ! self) (estimators w4 ! self)"
  proof -
    show "length (estimators w4) = length (estimators w3)"
      using s3 by (auto simp: call_body_def split: prod.splits)
    from body have "leaves_shapes (estimators w3 ! self)
        (snd (m (estimators w3 ! self) Y T args))"
      by blast
    then show "leaves_shapes (estimators w3 ! self) (estimators w4 ! self)"
      using s3 valid l2 l3 by (auto simp: call_body_def split: prod.splits)
  qed
  have l5: "length (estimators w5) = length (estimators w4)"
    and e5: "leaves_shapes (estimators w4 ! self) (estimators w5 ! self)"
  proof -
    show "length (estimators w5) = length (estimators w4)"
      using s4 by (auto simp: call_inference_fit_def split: option.splits prod.splits)
    show "leaves_shapes (estimators w4 ! self) (estimators w5 ! self)"
    proof (cases inference)
      case None
      then show ?thesis using s4 by (simp add: call_inference_fit_def leaves_shapes_def)
    next
      case (Some a)
      from post have "leaves_shapes (estimators w4 ! self)
          (snd (snd (inference_fit h (heap w4 ! a) (estimators w4 ! self) Y T args)))"
        by blast
      then show ?thesis
        using s4 Some valid l2 l3 l4 by (auto simp: call_inference_fit_def split: prod.splits)
    qed
  qed
  have e6: "leaves_shapes (estimators w5 ! self) (estimators w' ! self)"
    using s5 valid l2 l3 l4 l5 by (simp add: store_inference_def leaves_shapes_def)
  show ?thesis
    using e2 e3 e4 e5 e6 by (simp add: leaves_shapes_def)
qed

text \<open>
  C8, as the code has it. \<open>_prefit\<close> sets \<open>_d_y\<close> and \<open>_d_t\<close> to \<open>shape(Y)[1:]\<close> and
  \<open>shape(T)[1:]\<close> of the raw inputs, and with the treatment-expansion mixin \<open>_d_t_in\<close> to
  the same tuple as \<open>_d_t\<close>; nothing else in the module assigns them. So after a \<open>fit\<close> that
  returns they hold these values provided the wrapped body and the inference hooks assign
  none of them.
\<close>

theorem shapes_recorded_by_prefit:
  assumes pre: "\<forall>i s a b g. leaves_shapes s (snd (snd (inference_prefit h i s a b g)))"
    and post: "\<forall>i s a b g. leaves_shapes s (snd (snd (inference_fit h i s a b g)))"
    and body: "\<forall>s a b g. leaves_shapes s (snd (m s a b g))"
    and valid: "self < length (estimators w)"
    and run: "wrap_fit h k m self Y T args inference w = (Inr x, w')"
  shows "(\<forall>s. d_y (prefit k Y T s) = Some (drop 1 (shp Y)) \<and>
              d_t (prefit k Y T s) = Some (drop 1 (shp T)) \<and>
              d_t_in (prefit k Y T s)
                = (if treatment_expansion k then Some (drop 1 (shp T)) else d_t_in s)) \<and>
         d_y (estimators w' ! self) = Some (drop 1 (shp Y)) \<and>
         d_t (estimators w' ! self) = Some (drop 1 (shp T)) \<and>
         d_t_in (estimators w' ! self)
           = (if treatment_expansion k then Some (drop 1 (shp T))
              else d_t_in (estimators w ! self))"
proof -
  obtain res w1 where g: "get_inference h k inference w = (res, w1)"
    by (cases "get_inference h k inference w")
  have w1: "estimators w1 = estimators w"
    using g
    by (cases inference)
       (auto simp: get_inference_def deepcopy_def construct_def Let_def split: option.splits)
  from run g obtain inf where chain: "and_then (do_prefit k self Y T)
            (and_then (call_inference_prefit h inf self Y T args)
            (and_then (call_body m self Y T args)
            (and_then (call_inference_fit h inf self Y T args)
            (\<lambda>w. (Inr self, store_inference self inf w))))) w1 = (Inr x, w')"
    by (cases res) (auto simp: wrap_fit_def)
  from fit_after_resolution_shapes [OF chain _ pre post body] valid w1
  have "leaves_shapes (prefit k Y T (estimators w ! self)) (estimators w' ! self)"
    by simp
  then show ?thesis
    by (simp only: leaves_shapes_def prefit_records) simp
qed

theorem shapes_recorded_by_prefit_witness:
  "d_y (estimators (snd (wrap_fit ex_hooks ex_klass ex_body 0 ex_Y ex_T0 () (Instance 0) ex_world))
          ! 0) = Some [] \<and>
   d_t (estimators (snd (wrap_fit ex_hooks ex_klass ex_body 0 ex_Y ex_T0 () (Instance 0) ex_world))
          ! 0) = Some [3] \<and>
   d_t_in (estimators (snd (wrap_fit ex_hooks ex_klass ex_body 0 ex_Y ex_T0 () (Instance 0) ex_world))
          ! 0) = Some [3]"
proof -
  let ?fit = "wrap_fit ex_hooks ex_klass ex_body 0 ex_Y ex_T0 () (Instance 0) ex_world"
  have "fst ?fit = Inr 0"
    by code_simp
  then have run: "?fit = (Inr 0, snd ?fit)"
    by (simp add: prod_eq_iff)
  have pre: "\<forall>i s a b g. leaves_shapes s (snd (snd (inference_prefit ex_hooks i s a b g)))"
    by (simp add: ex_hooks_def leaves_shapes_def)
  have post: "\<forall>i s a b g. leaves_shapes s (snd (snd (inference_fit ex_hooks i s a b g)))"
    by (simp add: ex_hooks_def leaves_shapes_def)
  have body: "\<forall>s a b g. leaves_shapes s (snd (ex_body s a b g))"
    by (simp add: ex_body_def leaves_shapes_def)
  have valid: "0 < length (estimators ex_world)"
    by (simp add: ex_world_def)
  have y: "drop 1 (shp ex_Y) = []" and t: "drop 1 (shp ex_T0) = [3]"
    and k: "treatment_expansion ex_klass"
    by (simp_all add: ex_Y_def ex_T0_def ex_klass_def)
  from shapes_recorded_by_prefit [OF pre post body valid run]
  have "d_y (estimators (snd ?fit) ! 0) = Some (drop 1 (shp ex_Y))"
    and "d_t (estimators (snd ?fit) ! 0) = Some (drop 1 (shp ex_T0))"
    and "d_t_in (estimators (snd ?fit) ! 0)
          = (if treatment_expansion ex_klass then Some (drop 1 (shp ex_T0))
             else d_t_in (estimators ex_world ! 0))"
    by blast+
  then show ?thesis
    by (simp only: y t k if_True simp_thms)
qed

text \<open>
  C8 as the specification words it fails: a wrapped body that overwrites \<open>_d_t\<close>, as the
  comment in \<open>TreatmentExpansionMixin._prefit\<close> tells subclasses to, leaves \<open>_d_t\<close> different
  from \<open>shape(T)[1:]\<close> after \<open>fit\<close>.
\<close>

theorem shapes_overwritten_counterexample:
  "fst (wrap_fit ex_hooks ex_klass ex_encoding_body 0 ex_Y ex_t0 () NoInference ex_world) = Inr 0 \<and>
   d_t (estimators
          (snd (wrap_fit ex_hooks ex_klass ex_encoding_body 0 ex_Y ex_t0 () NoInference ex_world))
          ! 0) = Some [2] \<and>
   drop 1 (shp ex_t0) = []"
  by code_simp

section \<open>Methods deferred to the inference object\<close>

lemma each_or_first_error_Inr: "each_or_first_error Inr xs = Inr xs"
  by (induction xs) (simp_all add: bind_err_def)

text \<open>
  C4, as the code has it. Each of \<open>effect_interval\<close>, \<open>const_marginal_effect_interval\<close>,
  \<open>coef__interval\<close>, \<open>intercept__interval\<close> and the \<open>marginal_effect_interval\<close> of
  \<open>BaseCateEstimator\<close> hands its arguments to the method of that name of the stored
  inference object; when \<open>_inference\<close> is \<open>None\<close> it raises the AttributeError that names
  the method and says that inference is None; when \<open>_inference\<close> was never assigned (no
  \<open>fit\<close> has completed) reading it raises Python's AttributeError for the attribute.
  \<open>LinearCateEstimator\<close> overrides \<open>marginal_effect_interval\<close>: it calls
  \<open>const_marginal_effect_interval(X=X, alpha=alpha)\<close> and, when \<open>X\<close> is \<open>None\<close>, repeats every
  bound along axis 0 by the row count of \<open>T\<close>; without an inference object the error names
  \<open>const_marginal_effect_interval\<close>.
\<close>

theorem deferred_methods_forward:
  assumes "(f, name) \<in> set
      [(effect_interval, ''effect_interval''),
       (base_marginal_effect_interval, ''marginal_effect_interval''),
       (const_marginal_effect_interval, ''const_marginal_effect_interval''),
       (coef__interval, ''coef__interval''),
       (intercept__interval, ''intercept__interval'')]"
  shows "f h k self args w =
           (case stored_inference (estimators w ! self) of
              Obj a \<Rightarrow> inference_call h (heap w ! a) name args
            | PyNone \<Rightarrow>
                Inl (AttributeError (''Can't call '' @ py_quote name @
                                     '' because 'inference' is None''))
            | Unassigned \<Rightarrow>
                Inl (AttributeError (py_quote (class_name k) @
                                     '' object has no attribute '' @ py_quote ''_inference''))) \<and>
         linear_marginal_effect_interval h k self T X alpha w =
           (case stored_inference (estimators w ! self) of
              Obj a \<Rightarrow>
                bind_err (inference_call h (heap w ! a) ''const_marginal_effect_interval''
                            ([], [(''X'', X), (''alpha'', alpha)]))
                  (\<lambda>effs. if X = None
                     then each_or_first_error
                            (\<lambda>eff. bind_err (tuple0 (shape T)) (np_repeat eff)) effs
                     else Inr effs)
            | PyNone \<Rightarrow>
                Inl (AttributeError (''Can't call '' @
                                     py_quote ''const_marginal_effect_interval'' @
                                     '' because 'inference' is None''))
            | Unassigned \<Rightarrow>
                Inl (AttributeError (py_quote (class_name k) @
                                     '' object has no attribute '' @ py_quote ''_inference'')))"
proof -
  have f: "f h k self args w = defer_to_inference h k name self args w"
    using assms
    by (auto simp: effect_interval_def base_marginal_effect_interval_def
        const_marginal_effect_interval_def coef__interval_def intercept__interval_def)
  have each: "each_or_first_error
        (\<lambda>eff. if X = None then bind_err (tuple0 (shape T)) (np_repeat eff) else Inr eff) effs
      = (if X = None
         then each_or_first_error (\<lambda>eff. bind_err (tuple0 (shape T)) (np_repeat eff)) effs
         else Inr effs)" for effs :: "'a ndarray list"
    by (cases X) (simp_all add: each_or_first_error_Inr)
  show ?thesis
    by (simp add: f defer_to_inference_def linear_marginal_effect_interval_def
        const_marginal_effect_interval_def no_attribute_def bind_err_def each
        split: inference_slot.splits sum.splits)
qed

theorem deferred_methods_forward_witness:
  "coef__interval ex_hooks ex_klass 0 ([], [])
      (ex_world\<lparr>estimators := [ex_expanding]\<rparr>)
     = Inl (AttributeError (''Can't call '' @ py_quote ''coef__interval'' @
                            '' because 'inference' is None'')) \<and>
   effect_interval ex_hooks ex_klass 0 ([Some ex_X], [])
      (snd (wrap_fit ex_hooks ex_klass ex_body 0 ex_Y ex_t0 () (Instance 0) ex_world))
     = Inr [\<lparr>shp = [1], dat = [27]\<rparr>, \<lparr>shp = [1], dat = [33]\<rparr>]"
proof -
  let ?w = "snd (wrap_fit ex_hooks ex_klass ex_body 0 ex_Y ex_t0 () (Instance 0) ex_world)"
  have "(coef__interval, ''coef__interval'') \<in> set
      [(effect_interval, ''effect_interval''),
       (base_marginal_effect_interval, ''marginal_effect_interval''),
       (const_marginal_effect_interval, ''const_marginal_effect_interval''),
       (coef__interval, ''coef__interval''),
       (intercept__interval, ''intercept__interval'')]"
    by simp
  from deferred_methods_forward [OF this, of ex_hooks ex_klass 0 "([], [])"
      "ex_world\<lparr>estimators := [ex_expanding]\<rparr>"]
  have a: "coef__interval ex_hooks ex_klass 0 ([], [])
      (ex_world\<lparr>estimators := [ex_expanding]\<rparr>)
     = Inl (AttributeError (''Can't call '' @ py_quote ''coef__interval'' @
                            '' because 'inference' is None''))"
    by (simp add: ex_expanding_def)
  have "(effect_interval, ''effect_interval'') \<in> set
      [(effect_interval, ''effect_interval''),
       (base_marginal_effect_interval, ''marginal_effect_interval''),
       (const_marginal_effect_interval, ''const_marginal_effect_interval''),
       (coef__interval, ''coef__interval''),
       (intercept__interval, ''intercept__interval'')]"
    by simp
  from deferred_methods_forward [OF this, of ex_hooks ex_klass 0 "([Some ex_X], [])" ?w]
  have "effect_interval ex_hooks ex_klass 0 ([Some ex_X], []) ?w =
      (case stored_inference (estimators ?w ! 0) of
         Obj a \<Rightarrow> inference_call ex_hooks (heap ?w ! a) ''effect_interval'' ([Some ex_X], [])
       | PyNone \<Rightarrow>
           Inl (AttributeError (''Can't call '' @ py_quote ''effect_interval'' @
                                '' because 'inference' is None''))
       | Unassigned \<Rightarrow>
           Inl (AttributeError (py_quote (class_name ex_klass) @
                                '' object has no attribute '' @ py_quote ''_inference'')))"
    by simp
  moreover have "stored_inference (estimators ?w ! 0) = Obj 1"
    by code_simp
  moreover have "inference_call ex_hooks (heap ?w ! 1) ''effect_interval'' ([Some ex_X], [])
      = Inr [\<lparr>shp = [1], dat = [27]\<rparr>, \<lparr>shp = [1], dat = [33]\<rparr>]"
    by code_simp
  ultimately have "effect_interval ex_hooks ex_klass 0 ([Some ex_X], []) ?w
      = Inr [\<lparr>shp = [1], dat = [27]\<rparr>, \<lparr>shp = [1], dat = [33]\<rparr>]"
    by simp
  with a show ?thesis by simp
qed

text \<open>
  C4 as the specification words it fails twice. On a linear estimator fitted with an
  inference object, \<open>marginal_effect_interval\<close> returns what the inference object's
  \<open>const_marginal_effect_interval\<close> returns, not what its \<open>marginal_effect_interval\<close>
  returns. And on an estimator no \<open>fit\<close> has run on, \<open>effect_interval\<close> raises the
  AttributeError for the missing attribute \<open>_inference\<close>, whose message names neither the
  method nor says that inference is None.
\<close>

theorem deferred_methods_counterexample:
  "linear_marginal_effect_interval ex_hooks ex_klass 0 ex_t0 (Some ex_X) (Some ex_alpha)
      (snd (wrap_fit ex_hooks ex_klass ex_body 0 ex_Y ex_t0 () (Instance 0) ex_world))
     = Inr [\<lparr>shp = [1], dat = [29]\<rparr>, \<lparr>shp = [1], dat = [31]\<rparr>] \<and>
   inference_call ex_hooks
      (heap (snd (wrap_fit ex_hooks ex_klass ex_body 0 ex_Y ex_t0 () (Instance 0) ex_world)) ! 1)
      ''marginal_effect_interval'' ([Some ex_t0, Some ex_X], [(''alpha'', Some ex_alpha)])
     = Inr [\<lparr>shp = [1], dat = [28]\<rparr>, \<lparr>shp = [1], dat = [32]\<rparr>] \<and>
   effect_interval ex_hooks ex_klass 0 ([], []) ex_world
     = Inl (AttributeError (py_quote ''LinearDMLCateEstimator'' @
                            '' object has no attribute '' @ py_quote ''_inference''))"
  by code_simp

end
